theory Spec2Isabelle
  imports Main "HOL-Library.Word" "HOL-Library.Sublist"
begin

section \<open>Identifiers, strings and errors\<close>

text \<open>
  \<^verbatim>\<open>type WorkflowID int64\<close>; the other identifier types of the package are integers of
  the same kind. The code never computes with an identifier (it compares them and hands
  them to the store), so they are modelled as \<open>int\<close>. The paging arguments of \<open>List\<close>
  are \<open>int64\<close> values that the code compares with zero and replaces by \<open>math.MaxInt64\<close>;
  they are 64-bit words read as signed.
\<close>

type_synonym WorkflowID = int
type_synonym DocTypeID = int
type_synonym DocStateID = int
type_synonym DocActionID = int
type_synonym DocEventID = int
type_synonym NodeID = int
type_synonym GroupID = int
type_synonym NodeType = string
type_synonym int64 = "64 word"

text \<open>
  A Go string is modelled by the sequence of runes (code points) that
  \<^verbatim>\<open>strings.TrimSpace\<close> decodes from it.
\<close>

type_synonym rune = nat
type_synonym gostring = "rune list"

definition runes :: "string \<Rightarrow> gostring" where
  "runes s = map of_char s"

definition isSpace :: "rune \<Rightarrow> bool" where
  \<comment> \<open>\<^verbatim>\<open>unicode.IsSpace\<close>: the code points with the White Space property\<close>
  "isSpace r \<longleftrightarrow>
     r \<in> {0x09, 0x0A, 0x0B, 0x0C, 0x0D, 0x20, 0x85, 0xA0, 0x1680,
          0x2028, 0x2029, 0x202F, 0x205F, 0x3000}
     \<or> (0x2000 \<le> r \<and> r \<le> 0x200A)"

definition TrimSpace :: "gostring \<Rightarrow> gostring" where
  \<comment> \<open>\<^verbatim>\<open>strings.TrimSpace\<close>: leading and trailing white space removed\<close>
  "TrimSpace s = rev (dropWhile isSpace (rev (dropWhile isSpace s)))"

text \<open>
  The code returns untyped errors distinguished by their message; each message is one
  constructor. The last five are the errors that come back from the store and from the
  node layer.
\<close>

datatype error =
    ErrEventNil                         \<comment> \<open>"event should be non-nil"\<close>
  | ErrRecipientsEmpty                  \<comment> \<open>"list of recipients should have length > 0"\<close>
  | ErrAlreadyApplied                   \<comment> \<open>"event already applied; nothing to do"\<close>
  | ErrTypeMismatch DocTypeID DocTypeID \<comment> \<open>"document type mismatch -- ..."\<close>
  | ErrNameEmpty                        \<comment> \<open>"name should not be empty"\<close>
  | ErrTransitionsEmpty                 \<comment> \<open>"transitions map should have length > 0"\<close>
  | ErrOffsetLimit                      \<comment> \<open>"offset and limit must be non-negative integers"\<close>
  | ErrNodeNotFound
  | ErrIllegalAction
  | ErrDuplicate
  | ErrTxDone
  | ErrStore

datatype error_kind =
    InvalidArgument | AlreadyApplied | TypeMismatch | NodeNotFound
  | IllegalAction | Duplicate | StoreFailure

fun kind :: "error \<Rightarrow> error_kind" where
  \<comment> \<open>the taxonomy of section 7 of the specification\<close>
  "kind ErrEventNil = InvalidArgument"
| "kind ErrRecipientsEmpty = InvalidArgument"
| "kind ErrAlreadyApplied = AlreadyApplied"
| "kind (ErrTypeMismatch _ _) = TypeMismatch"
| "kind ErrNameEmpty = InvalidArgument"
| "kind ErrTransitionsEmpty = InvalidArgument"
| "kind ErrOffsetLimit = InvalidArgument"
| "kind ErrNodeNotFound = NodeNotFound"
| "kind ErrIllegalAction = IllegalAction"
| "kind ErrDuplicate = Duplicate"
| "kind ErrTxDone = StoreFailure"
| "kind ErrStore = StoreFailure"

text \<open>
  A call either returns or panics (a method called on a nil \<^verbatim>\<open>*sql.Tx\<close> dereferences
  nil). The exported operations return a pair of a value and an optional error, as the
  Go functions do.
\<close>

datatype 'a call = Panics | Returns 'a

section \<open>The store\<close>

record Workflow =
  wf_id :: WorkflowID
  wf_name :: gostring
  wf_dtype :: DocTypeID
  wf_bstate :: DocStateID

record node_row =
  nr_id :: NodeID
  nr_dtype :: DocTypeID
  nr_state :: DocStateID
  nr_wid :: WorkflowID
  nr_name :: gostring
  nr_type :: NodeType

type_synonym transition_row = "DocTypeID \<times> DocStateID \<times> DocActionID \<times> DocStateID"
type_synonym notification_row = "DocEventID \<times> DocStateID \<times> GroupID"

record tables =
  wf_workflows :: "Workflow list"
  wf_workflow_nodes :: "node_row list"
  wf_docstate_transitions :: "transition_row list"
  applied_events :: "DocEventID list"
  notifications :: "notification_row list"

definition no_rows :: tables where
  "no_rows = \<lparr>wf_workflows = [], wf_workflow_nodes = [], wf_docstate_transitions = [],
              applied_events = [], notifications = []\<rparr>"

definition tables_append :: "tables \<Rightarrow> tables \<Rightarrow> tables" where
  "tables_append c p =
     \<lparr>wf_workflows = wf_workflows c @ wf_workflows p,
      wf_workflow_nodes = wf_workflow_nodes c @ wf_workflow_nodes p,
      wf_docstate_transitions = wf_docstate_transitions c @ wf_docstate_transitions p,
      applied_events = applied_events c @ applied_events p,
      notifications = notifications c @ notifications p\<rparr>"

type_synonym txid = nat

datatype stmt =
    InsertWorkflow gostring DocTypeID DocStateID
  | InsertNode DocTypeID DocStateID WorkflowID gostring NodeType
  | InsertTransition DocTypeID DocStateID DocActionID DocStateID
  | MarkEventApplied DocEventID
  | InsertNotification DocEventID DocStateID GroupID

datatype query =
    SelectWorkflows int int       \<comment> \<open>\<^verbatim>\<open>ORDER BY id LIMIT ? OFFSET ?\<close>\<close>
  | SelectNode DocTypeID DocStateID

datatype dbop =
    OpBegin txid
  | OpExec txid stmt
  | OpCommit txid
  | OpRollback txid
  | OpQuery query

text \<open>
  The database behind the package-level handle \<^verbatim>\<open>db\<close>: the committed rows, the rows each
  open transaction has written and not yet committed, the counters of the
  auto-increment columns, the failures the store is going to report (one entry is
  consumed by each call that can fail; an exhausted list means no further failure), and
  the log of the calls that reached it.
\<close>

record DB =
  committed :: tables
  open_txs :: "txid \<rightharpoonup> tables"
  next_tx :: txid
  next_wf_id :: int
  next_node_id :: int
  faults :: "bool list"
  oplog :: "dbop list"

datatype sql_result = SqlResult int

definition next_fault :: "DB \<Rightarrow> bool \<times> DB" where
  "next_fault db = (case faults db of [] \<Rightarrow> (False, db) | f # fs \<Rightarrow> (f, db\<lparr>faults := fs\<rparr>))"

definition pending_of :: "txid \<Rightarrow> DB \<Rightarrow> tables" where
  "pending_of t db = (case open_txs db t of None \<Rightarrow> no_rows | Some p \<Rightarrow> p)"

text \<open>
  Modelled from the spec: the schema of the three tables is not part of the source.
  Section 6 requires \<open>name\<close> unique in \<open>workflows\<close>, \<open>(document_type, state)\<close>
  unique in \<open>workflow_nodes\<close> and \<open>(document_type, from_state, action)\<close> unique in
  \<open>transitions\<close>. The check is made against the committed rows and the rows the
  transaction itself has written.
\<close>

definition unique_violation :: "tables \<Rightarrow> stmt \<Rightarrow> bool" where
  "unique_violation v s =
     (case s of
        InsertWorkflow n d st \<Rightarrow> n \<in> set (map wf_name (wf_workflows v))
      | InsertNode d st w n ty \<Rightarrow>
          (d, st) \<in> set (map (\<lambda>r. (nr_dtype r, nr_state r)) (wf_workflow_nodes v))
      | InsertTransition d f a t \<Rightarrow>
          (d, f, a) \<in> set (map (\<lambda>(d', f', a', t'). (d', f', a')) (wf_docstate_transitions v))
      | MarkEventApplied e \<Rightarrow> False
      | InsertNotification e st g \<Rightarrow> False)"

definition insert_id :: "DB \<Rightarrow> stmt \<Rightarrow> int" where
  "insert_id db s =
     (case s of
        InsertWorkflow n d st \<Rightarrow> next_wf_id db
      | InsertNode d st w n ty \<Rightarrow> next_node_id db
      | InsertTransition d f a t \<Rightarrow> 0
      | MarkEventApplied e \<Rightarrow> 0
      | InsertNotification e st g \<Rightarrow> 0)"

definition add_row :: "int \<Rightarrow> stmt \<Rightarrow> tables \<Rightarrow> tables" where
  \<comment> \<open>the row a statement inserts, \<open>i\<close> being the value of its auto-increment column\<close>
  "add_row i s p =
     (case s of
        InsertWorkflow n d st \<Rightarrow>
          p\<lparr>wf_workflows := wf_workflows p @
               [\<lparr>wf_id = i, wf_name = n, wf_dtype = d, wf_bstate = st\<rparr>]\<rparr>
      | InsertNode d st w n ty \<Rightarrow>
          p\<lparr>wf_workflow_nodes := wf_workflow_nodes p @
               [\<lparr>nr_id = i, nr_dtype = d, nr_state = st, nr_wid = w,
                 nr_name = n, nr_type = ty\<rparr>]\<rparr>
      | InsertTransition d f a t \<Rightarrow>
          p\<lparr>wf_docstate_transitions := wf_docstate_transitions p @ [(d, f, a, t)]\<rparr>
      | MarkEventApplied e \<Rightarrow> p\<lparr>applied_events := applied_events p @ [e]\<rparr>
      | InsertNotification e st g \<Rightarrow> p\<lparr>notifications := notifications p @ [(e, st, g)]\<rparr>)"

definition bump_ids :: "stmt \<Rightarrow> DB \<Rightarrow> DB" where
  "bump_ids s db =
     (case s of
        InsertWorkflow n d st \<Rightarrow> db\<lparr>next_wf_id := next_wf_id db + 1\<rparr>
      | InsertNode d st w n ty \<Rightarrow> db\<lparr>next_node_id := next_node_id db + 1\<rparr>
      | InsertTransition d f a t \<Rightarrow> db
      | MarkEventApplied e \<Rightarrow> db
      | InsertNotification e st g \<Rightarrow> db)"

definition db_Begin :: "DB \<Rightarrow> (error + txid) \<times> DB" where
  \<comment> \<open>\<^verbatim>\<open>db.Begin()\<close>\<close>
  "db_Begin db =
     (case next_fault db of
        (True, db1) \<Rightarrow> (Inl ErrStore, db1)
      | (False, db1) \<Rightarrow>
          (Inr (next_tx db1),
           db1\<lparr>open_txs := (open_txs db1)(next_tx db1 \<mapsto> no_rows),
               next_tx := Suc (next_tx db1),
               oplog := oplog db1 @ [OpBegin (next_tx db1)]\<rparr>))"

definition tx_Exec :: "txid option \<Rightarrow> stmt \<Rightarrow> DB \<Rightarrow> (error + sql_result) call \<times> DB" where
  \<comment> \<open>\<^verbatim>\<open>tx.Exec(q, args...)\<close>; on a nil handle the call panics before it reaches the store\<close>
  "tx_Exec tx s db =
     (case tx of
        None \<Rightarrow> (Panics, db)
      | Some t \<Rightarrow>
          (case next_fault (db\<lparr>oplog := oplog db @ [OpExec t s]\<rparr>) of
             (True, db1) \<Rightarrow> (Returns (Inl ErrStore), db1)
           | (False, db1) \<Rightarrow>
               (case open_txs db1 t of
                  None \<Rightarrow> (Returns (Inl ErrTxDone), db1)
                | Some p \<Rightarrow>
                    if unique_violation (tables_append (committed db1) p) s
                    then (Returns (Inl ErrDuplicate), db1)
                    else (Returns (Inr (SqlResult (insert_id db1 s))),
                          bump_ids s (db1\<lparr>open_txs := (open_txs db1)(t \<mapsto> add_row (insert_id db1 s) s p)\<rparr>)))))"

definition LastInsertId :: "sql_result \<Rightarrow> DB \<Rightarrow> (error + int) \<times> DB" where
  \<comment> \<open>\<^verbatim>\<open>res.LastInsertId()\<close>, which a driver may refuse\<close>
  "LastInsertId res db =
     (case next_fault db of
        (True, db1) \<Rightarrow> (Inl ErrStore, db1)
      | (False, db1) \<Rightarrow> (case res of SqlResult i \<Rightarrow> (Inr i, db1)))"

definition tx_Commit :: "txid option \<Rightarrow> DB \<Rightarrow> error option call \<times> DB" where
  \<comment> \<open>\<^verbatim>\<open>tx.Commit()\<close>; a failed commit discards the transaction\<close>
  "tx_Commit tx db =
     (case tx of
        None \<Rightarrow> (Panics, db)
      | Some t \<Rightarrow>
          (case next_fault (db\<lparr>oplog := oplog db @ [OpCommit t]\<rparr>) of
             (True, db1) \<Rightarrow> (Returns (Some ErrStore), db1\<lparr>open_txs := (open_txs db1)(t := None)\<rparr>)
           | (False, db1) \<Rightarrow>
               (case open_txs db1 t of
                  None \<Rightarrow> (Returns (Some ErrTxDone), db1)
                | Some p \<Rightarrow>
                    (Returns None,
                     db1\<lparr>committed := tables_append (committed db1) p,
                         open_txs := (open_txs db1)(t := None)\<rparr>))))"

definition tx_Rollback :: "txid option \<Rightarrow> DB \<Rightarrow> error option call \<times> DB" where
  \<comment> \<open>\<^verbatim>\<open>tx.Rollback()\<close>; on a transaction already finished it reports \<^verbatim>\<open>ErrTxDone\<close>\<close>
  "tx_Rollback tx db =
     (case tx of
        None \<Rightarrow> (Panics, db)
      | Some t \<Rightarrow>
          (case open_txs db t of
             None \<Rightarrow> (Returns (Some ErrTxDone), db\<lparr>oplog := oplog db @ [OpRollback t]\<rparr>)
           | Some p \<Rightarrow>
               (Returns None,
                db\<lparr>open_txs := (open_txs db)(t := None),
                   oplog := oplog db @ [OpRollback t]\<rparr>)))"

definition defer_Rollback :: "txid \<Rightarrow> 'a \<times> DB \<Rightarrow> 'a \<times> DB" where
  \<comment> \<open>\<^verbatim>\<open>defer tx.Rollback()\<close>: runs when the function returns or panics; its result is dropped\<close>
  "defer_Rollback t r = (fst r, snd (tx_Rollback (Some t) (snd r)))"

definition query_workflows :: "int \<Rightarrow> int \<Rightarrow> DB \<Rightarrow> (error + Workflow list) \<times> DB" where
  \<comment> \<open>\<^verbatim>\<open>db.Query\<close> of
      \<^verbatim>\<open>SELECT id, name, doctype_id, docstate_id FROM wf_workflows ORDER BY id LIMIT ? OFFSET ?\<close>;
      it reads committed rows\<close>
  "query_workflows lim off db =
     (case next_fault (db\<lparr>oplog := oplog db @ [OpQuery (SelectWorkflows lim off)]\<rparr>) of
        (True, db1) \<Rightarrow> (Inl ErrStore, db1)
      | (False, db1) \<Rightarrow>
          (Inr (take (nat lim) (drop (nat off) (sort_key wf_id (wf_workflows (committed db1))))),
           db1))"

section \<open>Workflows.New\<close>

definition New_insert ::
  "txid option \<Rightarrow> txid option \<Rightarrow> gostring \<Rightarrow> DocTypeID \<Rightarrow> DocStateID \<Rightarrow> DB
     \<Rightarrow> (WorkflowID \<times> error option) call \<times> DB" where
  \<comment> \<open>the body of \<open>New\<close> from the \<^verbatim>\<open>INSERT\<close> on; \<open>tx\<close> is the function-level variable
      \<^verbatim>\<open>tx\<close>\<close>
  "New_insert otx tx name dtype state db =
     (case tx_Exec tx (InsertWorkflow name dtype state) db of
        (Panics, db1) \<Rightarrow> (Panics, db1)
      | (Returns (Inl err), db1) \<Rightarrow> (Returns (0, Some err), db1)
      | (Returns (Inr res), db1) \<Rightarrow>
          (case LastInsertId res db1 of
             (Inl err, db2) \<Rightarrow> (Returns (0, Some err), db2)
           | (Inr i, db2) \<Rightarrow>
               if otx = None then
                 (case tx_Commit tx db2 of
                    (Panics, db3) \<Rightarrow> (Panics, db3)
                  | (Returns (Some err), db3) \<Rightarrow> (Returns (0, Some err), db3)
                  | (Returns None, db3) \<Rightarrow> (Returns (i, None), db3))
               else (Returns (i, None), db2)))"

definition New ::
  "txid option \<Rightarrow> gostring \<Rightarrow> DocTypeID \<Rightarrow> DocStateID \<Rightarrow> DB
     \<Rightarrow> (WorkflowID \<times> error option) call \<times> DB" where
  \<comment> \<open>In the branch \<^verbatim>\<open>otx == nil\<close> the source writes \<^verbatim>\<open>tx, err := db.Begin()\<close>: the \<^verbatim>\<open>:=\<close>
      declares a new \<^verbatim>\<open>tx\<close> local to the block, which the deferred rollback captures;
      the function-level \<^verbatim>\<open>tx\<close> declared by \<^verbatim>\<open>var tx *sql.Tx\<close> stays nil.\<close>
  "New otx name0 dtype state db =
     (let name = TrimSpace name0 in
      if name = [] then (Returns (0, Some ErrNameEmpty), db)
      else
        (case otx of
           None \<Rightarrow>
             (case db_Begin db of
                (Inl err, db1) \<Rightarrow> (Returns (0, Some err), db1)
              | (Inr tx', db1) \<Rightarrow> defer_Rollback tx' (New_insert otx None name dtype state db1))
         | Some t \<Rightarrow> New_insert otx (Some t) name dtype state db))"

section \<open>Workflows.List\<close>

definition MaxInt64 :: int64 where
  "MaxInt64 = 0x7FFFFFFFFFFFFFFF"

fun scan_rows :: "Workflow list \<Rightarrow> Workflow list \<Rightarrow> DB \<Rightarrow> (error + Workflow list) \<times> DB" where
  \<comment> \<open>\<^verbatim>\<open>for rows.Next() { ... rows.Scan(...) ...; ary = append(ary, &elem) }\<close>\<close>
  "scan_rows [] ary db = (Inr ary, db)"
| "scan_rows (r # rs) ary db =
     (case next_fault db of
        (True, db1) \<Rightarrow> (Inl ErrStore, db1)
      | (False, db1) \<Rightarrow> scan_rows rs (ary @ [r]) db1)"

definition rows_Err :: "DB \<Rightarrow> error option \<times> DB" where
  "rows_Err db = (case next_fault db of (True, db1) \<Rightarrow> (Some ErrStore, db1) | (False, db1) \<Rightarrow> (None, db1))"

definition List ::
  "int64 \<Rightarrow> int64 \<Rightarrow> DB \<Rightarrow> (Workflow list option \<times> error option) \<times> DB" where
  \<comment> \<open>the slice is \<open>None\<close> for nil and \<open>Some\<close> for an allocated slice\<close>
  "List offset limit0 db =
     (if offset <s 0 \<or> limit0 <s 0 then ((None, Some ErrOffsetLimit), db)
      else
        (let limit = (if limit0 = 0 then MaxInt64 else limit0) in
         case query_workflows (sint limit) (sint offset) db of
           (Inl err, db1) \<Rightarrow> ((None, Some err), db1)
         | (Inr rows, db1) \<Rightarrow>
             (case scan_rows rows [] db1 of
                (Inl err, db2) \<Rightarrow> ((None, Some err), db2)
              | (Inr ary, db2) \<Rightarrow>
                  (case rows_Err db2 of
                     (Some err, db3) \<Rightarrow> ((None, Some err), db3)
                   | (None, db3) \<Rightarrow> ((Some ary, None), db3)))))"

section \<open>Workflows.AddNode\<close>

text \<open>
  The transitions argument is a Go map; the model receives its entries in the order in
  which \<^verbatim>\<open>range\<close> happens to yield them, as an association list.
\<close>

fun insert_transitions ::
  "txid option \<Rightarrow> DocTypeID \<Rightarrow> DocStateID \<Rightarrow> (DocActionID \<times> DocStateID) list \<Rightarrow> DB
     \<Rightarrow> error option call \<times> DB" where
  \<comment> \<open>\<^verbatim>\<open>for da, ds := range hash { _, err := tx.Exec(q, dtype, state, da, ds) ... }\<close>\<close>
  "insert_transitions tx dtype state [] db = (Returns None, db)"
| "insert_transitions tx dtype state (kv # rest) db =
     (case tx_Exec tx (InsertTransition dtype state (fst kv) (snd kv)) db of
        (Panics, db1) \<Rightarrow> (Panics, db1)
      | (Returns (Inl err), db1) \<Rightarrow> (Returns (Some err), db1)
      | (Returns (Inr res), db1) \<Rightarrow> insert_transitions tx dtype state rest db1)"

definition AddNode_insert ::
  "txid option \<Rightarrow> txid option \<Rightarrow> DocTypeID \<Rightarrow> DocStateID \<Rightarrow> WorkflowID \<Rightarrow> gostring
     \<Rightarrow> NodeType \<Rightarrow> (DocActionID \<times> DocStateID) list \<Rightarrow> DB
     \<Rightarrow> (NodeID \<times> error option) call \<times> DB" where
  \<comment> \<open>the body of \<open>AddNode\<close> from the first \<^verbatim>\<open>INSERT\<close> on\<close>
  "AddNode_insert otx tx dtype state wid name ntype hash db =
     (case tx_Exec tx (InsertNode dtype state wid name ntype) db of
        (Panics, db1) \<Rightarrow> (Panics, db1)
      | (Returns (Inl err), db1) \<Rightarrow> (Returns (0, Some err), db1)
      | (Returns (Inr res), db1) \<Rightarrow>
          (case LastInsertId res db1 of
             (Inl err, db2) \<Rightarrow> (Returns (0, Some err), db2)
           | (Inr i, db2) \<Rightarrow>
               (case insert_transitions tx dtype state hash db2 of
                  (Panics, db3) \<Rightarrow> (Panics, db3)
                | (Returns (Some err), db3) \<Rightarrow> (Returns (0, Some err), db3)
                | (Returns None, db3) \<Rightarrow>
                    if otx = None then
                      (case tx_Commit tx db3 of
                         (Panics, db4) \<Rightarrow> (Panics, db4)
                       | (Returns (Some err), db4) \<Rightarrow> (Returns (0, Some err), db4)
                       | (Returns None, db4) \<Rightarrow> (Returns (i, None), db4))
                    else (Returns (i, None), db3))))"

definition AddNode ::
  "txid option \<Rightarrow> DocTypeID \<Rightarrow> DocStateID \<Rightarrow> WorkflowID \<Rightarrow> gostring \<Rightarrow> NodeType
     \<Rightarrow> (DocActionID \<times> DocStateID) list \<Rightarrow> DB \<Rightarrow> (NodeID \<times> error option) call \<times> DB" where
  \<comment> \<open>the same \<^verbatim>\<open>tx, err := db.Begin()\<close> inside the \<^verbatim>\<open>otx == nil\<close> block as in \<open>New\<close>\<close>
  "AddNode otx dtype state wid name0 ntype hash db =
     (let name = TrimSpace name0 in
      if name = [] then (Returns (0, Some ErrNameEmpty), db)
      else if hash = [] then (Returns (0, Some ErrTransitionsEmpty), db)
      else
        (case otx of
           None \<Rightarrow>
             (case db_Begin db of
                (Inl err, db1) \<Rightarrow> (Returns (0, Some err), db1)
              | (Inr tx', db1) \<Rightarrow>
                  defer_Rollback tx' (AddNode_insert otx None dtype state wid name ntype hash db1))
         | Some t \<Rightarrow> AddNode_insert otx (Some t) dtype state wid name ntype hash db))"

section \<open>Workflow.ApplyEvent\<close>

text \<open>
  Modelled from the spec: the types \<open>DocEvent\<close> and \<open>Node\<close> are declared outside the
  source file, which reads the fields \<open>status\<close>, \<open>dtype\<close> and \<open>state\<close> of an event and
  the constant \<open>EventStatusApplied\<close>. Section 3: an event has an id, a document type, the
  state at which it is applied, the action it carries and a status in Created, Applied;
  a node has its row and the transition table of its (document type, state) pair.
\<close>

datatype EventStatus = EventStatusCreated | EventStatusApplied

record DocEvent =
  ev_id :: DocEventID
  ev_dtype :: DocTypeID
  ev_state :: DocStateID
  ev_action :: DocActionID
  ev_status :: EventStatus

record Node =
  n_row :: node_row
  n_xforms :: "(DocActionID \<times> DocStateID) list"

text \<open>
  Modelled from the spec: \<^verbatim>\<open>_nodes.GetByState\<close> is not part of the source. Section 6:
  \<open>getByState(documentType, state) -> Node | NotFound\<close>; section 3: a Node owns the
  transition table of its (document type, state) pair. The call takes no unit of work,
  so it reads the committed rows through the package-level handle.
\<close>

definition GetByState :: "DocTypeID \<Rightarrow> DocStateID \<Rightarrow> DB \<Rightarrow> (error + Node) \<times> DB" where
  "GetByState dtype state db =
     (case next_fault (db\<lparr>oplog := oplog db @ [OpQuery (SelectNode dtype state)]\<rparr>) of
        (True, db1) \<Rightarrow> (Inl ErrStore, db1)
      | (False, db1) \<Rightarrow>
          (case find (\<lambda>r. nr_dtype r = dtype \<and> nr_state r = state)
                  (wf_workflow_nodes (committed db1)) of
             None \<Rightarrow> (Inl ErrNodeNotFound, db1)
           | Some r \<Rightarrow>
               (Inr \<lparr>n_row = r,
                      n_xforms = map (\<lambda>(d, f, a, t). (a, t))
                                   (filter (\<lambda>(d, f, a, t). d = dtype \<and> f = state)
                                      (wf_docstate_transitions (committed db1)))\<rparr>,
                db1)))"

text \<open>
  Modelled from the spec: the hand-off of notifications is not part of the source.
  Section 4.2: exactly one notification intent per recipient group, referencing the
  event and the new state, within the unit of work.
\<close>

fun post_notifications ::
  "txid option \<Rightarrow> DocEventID \<Rightarrow> DocStateID \<Rightarrow> GroupID list \<Rightarrow> DB \<Rightarrow> error option call \<times> DB" where
  "post_notifications tx e st [] db = (Returns None, db)"
| "post_notifications tx e st (g # gs) db =
     (case tx_Exec tx (InsertNotification e st g) db of
        (Panics, db1) \<Rightarrow> (Panics, db1)
      | (Returns (Inl err), db1) \<Rightarrow> (Returns (Some err), db1)
      | (Returns (Inr res), db1) \<Rightarrow> post_notifications tx e st gs db1)"

text \<open>
  Modelled from the spec: \<^verbatim>\<open>Node.applyEvent\<close> is not part of the source. Section 4.2:
  look up the destination state of the event's action; absent, fail with IllegalAction;
  otherwise, within the unit of work it was given, mark the event's status Applied and
  record one notification intent per recipient group, and return the destination
  state. The event is passed by pointer: the second component of the result is the
  event as the call leaves it.
\<close>

definition applyEvent ::
  "Node \<Rightarrow> txid option \<Rightarrow> DocEvent \<Rightarrow> GroupID list \<Rightarrow> DB
     \<Rightarrow> ((DocStateID \<times> error option) call \<times> DocEvent) \<times> DB" where
  "applyEvent n tx e recipients db =
     (case map_of (n_xforms n) (ev_action e) of
        None \<Rightarrow> ((Returns (0, Some ErrIllegalAction), e), db)
      | Some toState \<Rightarrow>
          (case tx_Exec tx (MarkEventApplied (ev_id e)) db of
             (Panics, db1) \<Rightarrow> ((Panics, e), db1)
           | (Returns (Inl err), db1) \<Rightarrow> ((Returns (0, Some err), e), db1)
           | (Returns (Inr res), db1) \<Rightarrow>
               (case post_notifications tx (ev_id e) toState recipients db1 of
                  (Panics, db2) \<Rightarrow> ((Panics, e), db2)
                | (Returns (Some err), db2) \<Rightarrow> ((Returns (0, Some err), e), db2)
                | (Returns None, db2) \<Rightarrow>
                    ((Returns (toState, None), e\<lparr>ev_status := EventStatusApplied\<rparr>), db2))))"

definition ApplyEvent_apply ::
  "txid option \<Rightarrow> txid option \<Rightarrow> Node \<Rightarrow> DocEvent \<Rightarrow> GroupID list \<Rightarrow> DB
     \<Rightarrow> ((DocStateID \<times> error option) call \<times> DocEvent option) \<times> DB" where
  \<comment> \<open>the body of \<open>ApplyEvent\<close> from \<^verbatim>\<open>n.applyEvent(tx, event, recipients)\<close> on\<close>
  "ApplyEvent_apply otx tx n e recipients db =
     (case applyEvent n tx e recipients db of
        ((Panics, e1), db1) \<Rightarrow> ((Panics, Some e1), db1)
      | ((Returns (nstate, Some err), e1), db1) \<Rightarrow> ((Returns (0, Some err), Some e1), db1)
      | ((Returns (nstate, None), e1), db1) \<Rightarrow>
          if otx = None then
            (case tx_Commit tx db1 of
               (Panics, db2) \<Rightarrow> ((Panics, Some e1), db2)
             | (Returns (Some err), db2) \<Rightarrow> ((Returns (0, Some err), Some e1), db2)
             | (Returns None, db2) \<Rightarrow> ((Returns (nstate, None), Some e1), db2))
          else ((Returns (nstate, None), Some e1), db1))"

definition ApplyEvent ::
  "Workflow \<Rightarrow> txid option \<Rightarrow> DocEvent option \<Rightarrow> GroupID list \<Rightarrow> DB
     \<Rightarrow> ((DocStateID \<times> error option) call \<times> DocEvent option) \<times> DB" where
  \<comment> \<open>\<open>event\<close> is a pointer: \<open>None\<close> is nil, and the result carries the event as the call
      leaves it. The four guards are in the order of the source.\<close>
  "ApplyEvent w otx event recipients db =
     (case event of
        None \<Rightarrow> ((Returns (0, Some ErrEventNil), event), db)
      | Some e \<Rightarrow>
          if recipients = [] then ((Returns (0, Some ErrRecipientsEmpty), event), db)
          else if ev_status e = EventStatusApplied then
            ((Returns (0, Some ErrAlreadyApplied), event), db)
          else if wf_dtype w \<noteq> ev_dtype e then
            ((Returns (0, Some (ErrTypeMismatch (wf_dtype w) (ev_dtype e))), event), db)
          else
            (case GetByState (wf_dtype w) (ev_state e) db of
               (Inl err, db1) \<Rightarrow> ((Returns (0, Some err), event), db1)
             | (Inr n, db1) \<Rightarrow>
                 (case otx of
                    None \<Rightarrow>
                      (case db_Begin db1 of
                         (Inl err, db2) \<Rightarrow> ((Returns (0, Some err), event), db2)
                       | (Inr tx', db2) \<Rightarrow>
                           defer_Rollback tx' (ApplyEvent_apply otx None n e recipients db2))
                  | Some t \<Rightarrow> ApplyEvent_apply otx (Some t) n e recipients db1)))"

section \<open>Reading results\<close>

definition returned_value :: "('a \<times> error option) call \<Rightarrow> 'a option" where
  "returned_value c = (case c of Panics \<Rightarrow> None | Returns r \<Rightarrow> Some (fst r))"

definition returned_error :: "('a \<times> error option) call \<Rightarrow> error option" where
  "returned_error c = (case c of Panics \<Rightarrow> None | Returns r \<Rightarrow> snd r)"

definition List_from_id :: "int64 \<Rightarrow> int64 \<Rightarrow> DB \<Rightarrow> Workflow list" where
  \<comment> \<open>The result the documentation of \<open>List\<close> describes ("Result set begins with
      ID >= offset, and has not more than limit elements"; the specification's
      "id-based lower bound (smallest id to include), not a row-skip count"), written
      from those words for comparison with what the query returns.\<close>
  "List_from_id offset limit db =
     (let rows = filter (\<lambda>w. sint offset \<le> wf_id w) (sort_key wf_id (wf_workflows (committed db)))
      in if limit = 0 then rows else take (nat (sint limit)) rows)"

section \<open>Example stores\<close>

definition db_empty :: DB where
  "db_empty = \<lparr>committed = no_rows, open_txs = Map.empty, next_tx = 0, next_wf_id = 1,
               next_node_id = 1, faults = [], oplog = []\<rparr>"

definition workflow_row :: "int \<Rightarrow> string \<Rightarrow> Workflow" where
  "workflow_row i n = \<lparr>wf_id = i, wf_name = runes n, wf_dtype = 1, wf_bstate = 10\<rparr>"

definition db_three :: DB where
  \<comment> \<open>three committed workflows, with ids 1, 2 and 3\<close>
  "db_three = db_empty\<lparr>committed := no_rows\<lparr>wf_workflows := [workflow_row 2 ''b'', workflow_row 1 ''a'', workflow_row 3 ''c'']\<rparr>,
                       next_wf_id := 4\<rparr>"

definition db_invoice :: DB where
  \<comment> \<open>the scenario of section 8: workflow "acme.invoice" for document type 1 beginning in
      state 10, a node for state 10 with the transition action 1 to state 20; the caller
      has opened transaction 0\<close>
  "db_invoice =
     \<lparr>committed = no_rows\<lparr>wf_workflows := [workflow_row 1 ''acme.invoice''],
                          wf_workflow_nodes :=
                            [\<lparr>nr_id = 1, nr_dtype = 1, nr_state = 10, nr_wid = 1,
                              nr_name = runes ''draft'', nr_type = ''start''\<rparr>],
                          wf_docstate_transitions := [(1, 10, 1, 20)]\<rparr>,
      open_txs = [0 \<mapsto> no_rows], next_tx = 1, next_wf_id = 2, next_node_id = 2,
      faults = [], oplog = [OpBegin 0]\<rparr>"

definition ev_created :: DocEvent where
  "ev_created = \<lparr>ev_id = 1, ev_dtype = 1, ev_state = 10, ev_action = 1,
                 ev_status = EventStatusCreated\<rparr>"

definition ev_applied :: DocEvent where
  "ev_applied = ev_created\<lparr>ev_status := EventStatusApplied\<rparr>"

definition ev_applied_other_type :: DocEvent where
  "ev_applied_other_type = ev_applied\<lparr>ev_dtype := 2\<rparr>"

section \<open>Observing what a call did to the store\<close>

fun exec_on :: "txid \<Rightarrow> dbop \<Rightarrow> bool" where
  "exec_on t (OpExec t' s) = (t' = t)"
| "exec_on t (OpBegin t') = False"
| "exec_on t (OpCommit t') = False"
| "exec_on t (OpRollback t') = False"
| "exec_on t (OpQuery q) = False"

fun query_or_exec_on :: "txid \<Rightarrow> dbop \<Rightarrow> bool" where
  "query_or_exec_on t (OpExec t' s) = (t' = t)"
| "query_or_exec_on t (OpQuery q) = True"
| "query_or_exec_on t (OpBegin t') = False"
| "query_or_exec_on t (OpCommit t') = False"
| "query_or_exec_on t (OpRollback t') = False"

definition calls_only :: "(dbop \<Rightarrow> bool) \<Rightarrow> DB \<Rightarrow> DB \<Rightarrow> bool" where
  "calls_only P db db' \<longleftrightarrow>
     (\<exists>ops. oplog db' = oplog db @ ops \<and> list_all P ops)
     \<and> committed db' = committed db
     \<and> dom (open_txs db') = dom (open_txs db)"

definition transition_stmts ::
  "DocTypeID \<Rightarrow> DocStateID \<Rightarrow> (DocActionID \<times> DocStateID) list \<Rightarrow> stmt list" where
  "transition_stmts dtype state hash =
     map (\<lambda>kv. InsertTransition dtype state (fst kv) (snd kv)) hash"

definition transition_rows ::
  "DocTypeID \<Rightarrow> DocStateID \<Rightarrow> (DocActionID \<times> DocStateID) list \<Rightarrow> transition_row list" where
  "transition_rows dtype state hash = map (\<lambda>kv. (dtype, state, fst kv, snd kv)) hash"

lemmas store_defs =
  next_fault_def pending_of_def unique_violation_def insert_id_def add_row_def bump_ids_def
  db_Begin_def tx_Exec_def LastInsertId_def tx_Commit_def tx_Rollback_def defer_Rollback_def
  query_workflows_def tables_append_def no_rows_def

lemmas example_defs =
  db_empty_def workflow_row_def db_three_def db_invoice_def ev_created_def ev_applied_def
  ev_applied_other_type_def runes_def TrimSpace_def isSpace_def

lemmas op_defs =
  New_def New_insert_def AddNode_def AddNode_insert_def ApplyEvent_def ApplyEvent_apply_def
  applyEvent_def GetByState_def returned_error_def returned_value_def Let_def

lemmas List_defs = List_def MaxInt64_def rows_Err_def word_sless_alt

section \<open>Properties\<close>

subsection \<open>store primitives\<close>

lemma calls_only_refl: "calls_only P db db"
  by (simp add: calls_only_def)

lemma calls_only_trans:
  "calls_only P db db1 \<Longrightarrow> calls_only P db1 db2 \<Longrightarrow> calls_only P db db2"
  unfolding calls_only_def
  by (elim conjE exE) (rule conjI, rule_tac x="ops @ opsa" in exI, simp, simp)

lemma calls_only_weaken:
  "calls_only (exec_on t) db db' \<Longrightarrow> calls_only (query_or_exec_on t) db db'"
proof -
  have "exec_on t op \<Longrightarrow> query_or_exec_on t op" for op by (cases op) auto
  then have "list_all (exec_on t) ops \<Longrightarrow> list_all (query_or_exec_on t) ops" for ops
    by (induction ops) auto
  then show "calls_only (exec_on t) db db' \<Longrightarrow> calls_only (query_or_exec_on t) db db'"
    unfolding calls_only_def by blast
qed

lemma tx_Exec_Some:
  "tx_Exec (Some t) s db = (r, db') \<Longrightarrow>
     oplog db' = oplog db @ [OpExec t s] \<and> committed db' = committed db
     \<and> dom (open_txs db') = dom (open_txs db) \<and> r \<noteq> Panics"
  by (auto simp: tx_Exec_def next_fault_def bump_ids_def
      split: list.splits if_splits option.splits stmt.splits bool.splits)

lemma tx_Exec_calls: "tx_Exec (Some t) s db = (r, db') \<Longrightarrow> calls_only (exec_on t) db db'"
  by (drule tx_Exec_Some) (simp add: calls_only_def)

lemma tx_Exec_ok:
  "tx_Exec (Some t) s db = (Returns (Inr res), db') \<Longrightarrow>
     res = SqlResult (insert_id db s) \<and>
     (\<exists>p. open_txs db t = Some p \<and> open_txs db' t = Some (add_row (insert_id db s) s p))"
  by (auto simp: tx_Exec_def next_fault_def bump_ids_def insert_id_def
      split: list.splits if_splits option.splits stmt.splits bool.splits)

lemma tx_Exec_nil: "tx_Exec None s db = (Panics, db)"
  by (simp add: tx_Exec_def)

lemma tx_Commit_nil: "tx_Commit None db = (Panics, db)"
  by (simp add: tx_Commit_def)

lemma LastInsertId_frame:
  "LastInsertId res db = (r, db') \<Longrightarrow>
     oplog db' = oplog db \<and> committed db' = committed db \<and> open_txs db' = open_txs db"
  by (auto simp: LastInsertId_def next_fault_def split: list.splits bool.splits sql_result.splits)

lemma LastInsertId_calls: "LastInsertId res db = (r, db') \<Longrightarrow> calls_only P db db'"
  by (drule LastInsertId_frame) (simp add: calls_only_def)

lemma LastInsertId_ok: "LastInsertId (SqlResult i) db = (Inr j, db') \<Longrightarrow> j = i"
  by (auto simp: LastInsertId_def next_fault_def split: list.splits bool.splits)

lemma GetByState_calls:
  "GetByState d st db = (r, db') \<Longrightarrow> calls_only (query_or_exec_on t) db db'"
  by (auto simp: GetByState_def next_fault_def calls_only_def
      split: list.splits bool.splits option.splits)

subsection \<open>loops\<close>

lemma insert_transitions_calls:
  "insert_transitions (Some t) d st hash db = (r, db') \<Longrightarrow>
     calls_only (exec_on t) db db' \<and> r \<noteq> Panics"
proof (induction hash arbitrary: db)
  case Nil
  then show ?case by (auto simp: calls_only_refl)
next
  case (Cons kv rest)
  obtain r1 db1 where e: "tx_Exec (Some t) (InsertTransition d st (fst kv) (snd kv)) db = (r1, db1)"
    by (cases "tx_Exec (Some t) (InsertTransition d st (fst kv) (snd kv)) db") auto
  note c = tx_Exec_calls[OF e] and f = tx_Exec_Some[OF e]
  show ?case
  proof (cases r1)
    case Panics
    with f show ?thesis by simp
  next
    case (Returns x)
    show ?thesis
    proof (cases x)
      case (Inl err)
      with Returns e Cons.prems c show ?thesis by auto
    next
      case (Inr res)
      with Returns e Cons.prems have "insert_transitions (Some t) d st rest db1 = (r, db')" by auto
      from Cons.IH[OF this] c show ?thesis by (blast intro: calls_only_trans)
    qed
  qed
qed

lemma post_notifications_calls:
  "post_notifications (Some t) e st gs db = (r, db') \<Longrightarrow>
     calls_only (exec_on t) db db' \<and> r \<noteq> Panics"
proof (induction gs arbitrary: db)
  case Nil
  then show ?case by (auto simp: calls_only_refl)
next
  case (Cons g gs)
  obtain r1 db1 where e: "tx_Exec (Some t) (InsertNotification e st g) db = (r1, db1)"
    by (cases "tx_Exec (Some t) (InsertNotification e st g) db") auto
  note c = tx_Exec_calls[OF e] and f = tx_Exec_Some[OF e]
  show ?case
  proof (cases r1)
    case Panics
    with f show ?thesis by simp
  next
    case (Returns x)
    show ?thesis
    proof (cases x)
      case (Inl err)
      with Returns e Cons.prems c show ?thesis by auto
    next
      case (Inr res)
      with Returns e Cons.prems have "post_notifications (Some t) e st gs db1 = (r, db')" by auto
      from Cons.IH[OF this] c show ?thesis by (blast intro: calls_only_trans)
    qed
  qed
qed

subsection \<open>operations on a caller's transaction\<close>

lemma New_insert_calls:
  "New_insert (Some t) (Some t) name dtype state db = (r, db') \<Longrightarrow>
     calls_only (exec_on t) db db'"
  by (auto simp: New_insert_def split: prod.splits call.splits sum.splits
      dest!: tx_Exec_calls LastInsertId_calls[where P="exec_on t"] intro: calls_only_trans)

lemma AddNode_insert_calls:
  "AddNode_insert (Some t) (Some t) dtype state wid name ntype hash db = (r, db') \<Longrightarrow>
     calls_only (exec_on t) db db'"
  by (auto simp: AddNode_insert_def split: prod.splits call.splits sum.splits option.splits
      dest!: tx_Exec_calls LastInsertId_calls[where P="exec_on t"] insert_transitions_calls
      intro: calls_only_trans)

lemma applyEvent_calls:
  "applyEvent n (Some t) e recipients db = (r, db') \<Longrightarrow> calls_only (exec_on t) db db'"
  by (auto simp: applyEvent_def calls_only_refl split: prod.splits call.splits sum.splits option.splits
      dest!: tx_Exec_calls post_notifications_calls intro: calls_only_trans)

lemma ApplyEvent_apply_calls:
  "ApplyEvent_apply (Some t) (Some t) n e recipients db = (r, db') \<Longrightarrow>
     calls_only (exec_on t) db db'"
  by (auto simp: ApplyEvent_apply_def split: prod.splits call.splits option.splits
      dest!: applyEvent_calls)

subsection \<open>the statements and rows of \<open>AddNode\<close>\<close>

lemma insert_transitions_log:
  "insert_transitions (Some t) d st hash db = (r, db') \<Longrightarrow>
     \<exists>ss. prefix ss (transition_stmts d st hash)
          \<and> oplog db' = oplog db @ map (OpExec t) ss
          \<and> (r = Returns None \<longrightarrow> ss = transition_stmts d st hash)"
proof (induction hash arbitrary: db)
  case Nil
  then show ?case by (auto simp: transition_stmts_def)
next
  case (Cons kv rest)
  let ?s = "InsertTransition d st (fst kv) (snd kv)"
  obtain r1 db1 where e: "tx_Exec (Some t) ?s db = (r1, db1)"
    by (cases "tx_Exec (Some t) ?s db") auto
  note f = tx_Exec_Some[OF e]
  show ?case
  proof (cases r1)
    case Panics
    with f show ?thesis by simp
  next
    case (Returns x)
    show ?thesis
    proof (cases x)
      case (Inl err)
      with Returns e Cons.prems have "r = Returns (Some err)" "db' = db1" by auto
      with f show ?thesis
        by (auto simp: transition_stmts_def intro!: exI[where x="[?s]"])
    next
      case (Inr res)
      with Returns e Cons.prems have "insert_transitions (Some t) d st rest db1 = (r, db')" by auto
      from Cons.IH[OF this] obtain ss where
        "prefix ss (transition_stmts d st rest)"
        "oplog db' = oplog db1 @ map (OpExec t) ss"
        "r = Returns None \<longrightarrow> ss = transition_stmts d st rest"
        by blast
      with f show ?thesis
        by (auto simp: transition_stmts_def intro!: exI[where x="?s # ss"])
    qed
  qed
qed

lemma insert_transitions_rows:
  "insert_transitions (Some t) d st hash db = (Returns None, db') \<Longrightarrow>
   open_txs db t = Some p \<Longrightarrow>
     open_txs db' t =
       Some (p\<lparr>wf_docstate_transitions := wf_docstate_transitions p @ transition_rows d st hash\<rparr>)"
proof (induction hash arbitrary: db p)
  case Nil
  then show ?case by (simp add: transition_rows_def)
next
  case (Cons kv rest)
  let ?s = "InsertTransition d st (fst kv) (snd kv)"
  obtain r1 db1 where e: "tx_Exec (Some t) ?s db = (r1, db1)"
    by (cases "tx_Exec (Some t) ?s db") auto
  with Cons.prems obtain res where r1: "r1 = Returns (Inr res)"
    and rest: "insert_transitions (Some t) d st rest db1 = (Returns None, db')"
    by (auto split: call.splits sum.splits)
  from tx_Exec_ok[OF e[unfolded r1]] Cons.prems(2)
  have "open_txs db1 t = Some (add_row (insert_id db ?s) ?s p)" by auto
  from Cons.IH[OF rest this] show ?case
    by (simp add: add_row_def transition_rows_def)
qed

subsection \<open>the result of \<open>List\<close>\<close>

lemma scan_rows_ok: "scan_rows rs ary db = (Inr out, db') \<Longrightarrow> out = ary @ rs"
proof (induction rs arbitrary: ary db)
  case Nil
  then show ?case by simp
next
  case (Cons r rs)
  from Cons.prems show ?case
    by (auto split: prod.splits bool.splits dest!: Cons.IH)
qed

lemma query_workflows_ok:
  "query_workflows lim off db = (Inr rows, db') \<Longrightarrow>
     rows = take (nat lim) (drop (nat off) (sort_key wf_id (wf_workflows (committed db))))"
  by (auto simp: query_workflows_def next_fault_def split: list.splits bool.splits)

lemma List_success:
  assumes "snd (fst (List offset limit db)) = None"
  shows "\<not> offset <s 0 \<and> \<not> limit <s 0 \<and>
         fst (fst (List offset limit db)) =
           Some (take (nat (sint (if limit = 0 then MaxInt64 else limit)))
                   (drop (nat (sint offset)) (sort_key wf_id (wf_workflows (committed db)))))"
proof -
  from assms have g: "\<not> offset <s 0" "\<not> limit <s 0"
    by (auto simp: List_def split: if_splits)
  define lim where "lim = (if limit = 0 then MaxInt64 else limit)"
  obtain q db1 where q: "query_workflows (sint lim) (sint offset) db = (q, db1)"
    by (cases "query_workflows (sint lim) (sint offset) db") auto
  from assms g q obtain rows where rows: "q = Inr rows"
    by (cases q) (auto simp: List_def Let_def lim_def)
  obtain s db2 where s: "scan_rows rows [] db1 = (s, db2)"
    by (cases "scan_rows rows [] db1") auto
  from assms g q rows s obtain ary where ary: "s = Inr ary"
    by (cases s) (auto simp: List_def Let_def lim_def)
  from scan_rows_ok s ary have "ary = rows" by fastforce
  moreover from assms g q rows s ary have "fst (fst (List offset limit db)) = Some ary"
    by (auto simp: List_def Let_def lim_def split: prod.splits option.splits)
  ultimately show ?thesis
    using g query_workflows_ok[OF q[unfolded rows]] by (simp add: lim_def)
qed



subsection \<open>values returned with an error\<close>

lemma New_insert_zero:
  "returned_error (fst (New_insert otx tx name dtype state db)) \<noteq> None \<Longrightarrow>
     returned_value (fst (New_insert otx tx name dtype state db)) = Some 0"
  by (auto simp: New_insert_def returned_error_def returned_value_def
      split: prod.splits call.splits sum.splits option.splits if_splits)

lemma AddNode_insert_zero:
  "returned_error (fst (AddNode_insert otx tx dtype state wid name ntype hash db)) \<noteq> None \<Longrightarrow>
     returned_value (fst (AddNode_insert otx tx dtype state wid name ntype hash db)) = Some 0"
  by (auto simp: AddNode_insert_def returned_error_def returned_value_def
      split: prod.splits call.splits sum.splits option.splits if_splits)

lemma ApplyEvent_apply_zero:
  "returned_error (fst (fst (ApplyEvent_apply otx tx n e recipients db))) \<noteq> None \<Longrightarrow>
     returned_value (fst (fst (ApplyEvent_apply otx tx n e recipients db))) = Some 0"
  by (auto simp: ApplyEvent_apply_def returned_error_def returned_value_def
      split: prod.splits call.splits sum.splits option.splits if_splits)

lemma New_zero:
  "returned_error (fst (New otx name dtype state db)) \<noteq> None \<Longrightarrow>
     returned_value (fst (New otx name dtype state db)) = Some 0"
  using New_insert_zero
  by (auto simp: New_def Let_def defer_Rollback_def returned_error_def returned_value_def
      split: prod.splits sum.splits option.splits if_splits)

lemma AddNode_zero:
  "returned_error (fst (AddNode otx dtype state wid name ntype hash db)) \<noteq> None \<Longrightarrow>
     returned_value (fst (AddNode otx dtype state wid name ntype hash db)) = Some 0"
  using AddNode_insert_zero
  by (auto simp: AddNode_def Let_def defer_Rollback_def returned_error_def returned_value_def
      split: prod.splits sum.splits option.splits if_splits)

lemma ApplyEvent_zero:
  "returned_error (fst (fst (ApplyEvent w otx event recipients db))) \<noteq> None \<Longrightarrow>
     returned_value (fst (fst (ApplyEvent w otx event recipients db))) = Some 0"
  using ApplyEvent_apply_zero
  by (auto simp: ApplyEvent_def Let_def defer_Rollback_def returned_error_def returned_value_def
      split: prod.splits sum.splits option.splits if_splits)

subsection \<open>calls without a unit of work\<close>

text \<open>
  With \<open>otx = None\<close> the transaction that \<^verbatim>\<open>db.Begin()\<close> opens is bound to a
  variable that shadows the one the rest of the function uses, so the statements and the
  commit go to a nil handle: no such call returns without an error.
\<close>

lemma no_success_without_caller_transaction:
  "fst (New None name dtype state db) \<noteq> Returns (i, None)"
  "fst (AddNode None dtype state wid name ntype hash db) \<noteq> Returns (j, None)"
  "fst (fst (ApplyEvent w None event recipients db)) \<noteq> Returns (k, None)"
  by (auto simp: op_defs defer_Rollback_def tx_Exec_def tx_Commit_def
      split: prod.splits sum.splits option.splits if_splits call.splits)

subsection \<open>the scenario of section 8\<close>

lemma first_application:
  "fst (ApplyEvent (workflow_row 1 ''acme.invoice'') (Some 0) (Some ev_created) [7] db_invoice)
     = (Returns (20, None), Some ev_applied)"
  by (simp add: ApplyEvent_def ApplyEvent_apply_def applyEvent_def GetByState_def
        store_defs example_defs)

subsection \<open>the event after \<open>ApplyEvent\<close>\<close>

lemma status_cases: "ev_status e \<noteq> EventStatusApplied \<Longrightarrow> ev_status e = EventStatusCreated"
  by (cases "ev_status e") auto

lemma applyEvent_event:
  "applyEvent n tx e recipients db = ((r, e'), db') \<Longrightarrow>
     (r = Returns (s, None) \<longrightarrow> e' = e\<lparr>ev_status := EventStatusApplied\<rparr>)
     \<and> (e' = e \<or> (\<exists>s'. r = Returns (s', None)) \<and> e' = e\<lparr>ev_status := EventStatusApplied\<rparr>)"
  by (auto simp: applyEvent_def split: option.splits prod.splits call.splits sum.splits)

lemma ApplyEvent_apply_event:
  "ApplyEvent_apply otx tx n e recipients db = ((r, ev'), db') \<Longrightarrow>
     (r = Returns (s, None) \<longrightarrow> ev' = Some (e\<lparr>ev_status := EventStatusApplied\<rparr>))
     \<and> (ev' = Some e \<or> ev' = Some (e\<lparr>ev_status := EventStatusApplied\<rparr>))"
  by (auto simp: ApplyEvent_apply_def split: option.splits prod.splits call.splits sum.splits if_splits
      dest!: applyEvent_event)

lemma ApplyEvent_event:
  "(fst (fst (ApplyEvent w otx (Some e) recipients db)) = Returns (s, None) \<longrightarrow>
      ev_status e = EventStatusCreated \<and> recipients \<noteq> []
      \<and> snd (fst (ApplyEvent w otx (Some e) recipients db))
          = Some (e\<lparr>ev_status := EventStatusApplied\<rparr>))
   \<and> (snd (fst (ApplyEvent w otx (Some e) recipients db)) = Some e
      \<or> ev_status e = EventStatusCreated
        \<and> snd (fst (ApplyEvent w otx (Some e) recipients db))
            = Some (e\<lparr>ev_status := EventStatusApplied\<rparr>))"
proof (cases "recipients = [] \<or> ev_status e = EventStatusApplied \<or> wf_dtype w \<noteq> ev_dtype e")
  case True
  then show ?thesis by (auto simp: ApplyEvent_def)
next
  case False
  then have g: "recipients \<noteq> []" "ev_status e = EventStatusCreated" "wf_dtype w = ev_dtype e"
    by (auto dest: status_cases)
  obtain q db1 where q: "GetByState (wf_dtype w) (ev_state e) db = (q, db1)"
    by (cases "GetByState (wf_dtype w) (ev_state e) db") auto
  show ?thesis
  proof (cases q)
    case (Inl err)
    with g q show ?thesis by (auto simp: ApplyEvent_def)
  next
    case (Inr n)
    show ?thesis
    proof (cases otx)
      case (Some t)
      obtain r ev' db2 where a: "ApplyEvent_apply (Some t) (Some t) n e recipients db1 = ((r, ev'), db2)"
        by (cases "ApplyEvent_apply (Some t) (Some t) n e recipients db1") auto
      from ApplyEvent_apply_event[OF a, of s] g q Inr Some a show ?thesis
        by (auto simp: ApplyEvent_def)
    next
      case None
      obtain b db2 where b: "db_Begin db1 = (b, db2)" by (cases "db_Begin db1") auto
      show ?thesis
      proof (cases b)
        case (Inl err)
        with g q Inr None b show ?thesis by (auto simp: ApplyEvent_def)
      next
        case (Inr tx')
        obtain r ev' db3 where a: "ApplyEvent_apply None None n e recipients db2 = ((r, ev'), db3)"
          by (cases "ApplyEvent_apply None None n e recipients db2") auto
        from ApplyEvent_apply_event[OF a, of s] g q \<open>q = Inr n\<close> None b Inr a show ?thesis
          by (auto simp: ApplyEvent_def defer_Rollback_def)
      qed
    qed
  qed
qed

subsection \<open>what \<open>AddNode\<close> does to the store\<close>

text \<open>
  On a caller's transaction \<open>AddNode\<close> executes the insert of the Node and then the
  inserts of the transitions in the order of the map, stopping at the first that fails;
  on success the rows are pending in that transaction. Without one it executes nothing.
  On no path does it change a committed row.
\<close>

lemma AddNode_on_caller_transaction:
  assumes name: "TrimSpace name \<noteq> []" and hash: "hash \<noteq> []"
    and run: "AddNode (Some t) dtype state wid name ntype hash db = (r, db')"
  shows "committed db' = committed db
    \<and> (\<exists>ss. prefix ss (InsertNode dtype state wid (TrimSpace name) ntype
                        # transition_stmts dtype state hash)
          \<and> oplog db' = oplog db @ map (OpExec t) ss)
    \<and> (returned_error r = None \<longrightarrow>
         (\<exists>i p. r = Returns (i, None) \<and> open_txs db t = Some p
            \<and> oplog db' = oplog db @ map (OpExec t)
                 (InsertNode dtype state wid (TrimSpace name) ntype
                  # transition_stmts dtype state hash)
            \<and> open_txs db' t =
                Some (p\<lparr>wf_workflow_nodes := wf_workflow_nodes p @
                           [\<lparr>nr_id = i, nr_dtype = dtype, nr_state = state, nr_wid = wid,
                             nr_name = TrimSpace name, nr_type = ntype\<rparr>],
                        wf_docstate_transitions := wf_docstate_transitions p @
                           transition_rows dtype state hash\<rparr>)))"
proof -
  let ?n = "InsertNode dtype state wid (TrimSpace name) ntype"
  let ?all = "?n # transition_stmts dtype state hash"
  from run name hash
  have body: "AddNode_insert (Some t) (Some t) dtype state wid (TrimSpace name) ntype hash db = (r, db')"
    by (simp add: AddNode_def Let_def)
  from AddNode_insert_calls[OF body] have frame: "committed db' = committed db"
    by (simp add: calls_only_def)
  obtain r1 db1 where e: "tx_Exec (Some t) ?n db = (r1, db1)"
    by (cases "tx_Exec (Some t) ?n db") auto
  note f = tx_Exec_Some[OF e]
  then obtain x where r1: "r1 = Returns x" by (cases r1) auto
  have rest: "(\<exists>ss. prefix ss ?all \<and> oplog db' = oplog db @ map (OpExec t) ss)
    \<and> (returned_error r = None \<longrightarrow>
         (\<exists>i p. r = Returns (i, None) \<and> open_txs db t = Some p
            \<and> oplog db' = oplog db @ map (OpExec t) ?all
            \<and> open_txs db' t =
                Some (p\<lparr>wf_workflow_nodes := wf_workflow_nodes p @
                           [\<lparr>nr_id = i, nr_dtype = dtype, nr_state = state, nr_wid = wid,
                             nr_name = TrimSpace name, nr_type = ntype\<rparr>],
                        wf_docstate_transitions := wf_docstate_transitions p @
                           transition_rows dtype state hash\<rparr>)))"
  proof (cases x)
    case (Inl err)
    with body e r1 have "r = Returns (0, Some err)" "db' = db1"
      by (auto simp: AddNode_insert_def)
    with f show ?thesis
      by (auto simp: returned_error_def intro!: exI[where x="[?n]"])
  next
    case (Inr res)
    obtain l db2 where l: "LastInsertId res db1 = (l, db2)"
      by (cases "LastInsertId res db1") auto
    note lf = LastInsertId_frame[OF l]
    show ?thesis
    proof (cases l)
      case (Inl err)
      with body e r1 Inr l have "r = Returns (0, Some err)" "db' = db2"
        by (auto simp: AddNode_insert_def)
      with f lf show ?thesis
        by (auto simp: returned_error_def intro!: exI[where x="[?n]"])
    next
      case i: (Inr i)
      obtain r3 db3 where it: "insert_transitions (Some t) dtype state hash db2 = (r3, db3)"
        by (cases "insert_transitions (Some t) dtype state hash db2") auto
      from insert_transitions_log[OF it] obtain ss where
        ss: "prefix ss (transition_stmts dtype state hash)"
            "oplog db3 = oplog db2 @ map (OpExec t) ss"
            "r3 = Returns None \<longrightarrow> ss = transition_stmts dtype state hash"
        by blast
      from insert_transitions_calls[OF it] obtain y where r3: "r3 = Returns y"
        by (cases r3) auto
      have log: "oplog db3 = oplog db @ map (OpExec t) (?n # ss)"
        using f lf ss(2) by simp
      show ?thesis
      proof (cases y)
        case (Some err)
        with body e r1 Inr l i it r3 have "r = Returns (0, Some err)" "db' = db3"
          by (auto simp: AddNode_insert_def)
        with log ss(1) show ?thesis
          by (auto simp: returned_error_def intro!: exI[where x="?n # ss"])
      next
        case None
        with body e r1 Inr l i it r3 have res: "r = Returns (i, None)" "db' = db3"
          by (auto simp: AddNode_insert_def)
        from tx_Exec_ok[OF e[unfolded r1 Inr]] obtain p where
          p: "open_txs db t = Some p" "open_txs db1 t = Some (add_row (insert_id db ?n) ?n p)"
             "res = SqlResult (insert_id db ?n)"
          by blast
        from l i p(3) have id: "i = insert_id db ?n" by (auto dest: LastInsertId_ok)
        from p(2) lf have "open_txs db2 t = Some (add_row i ?n p)" by (simp add: id)
        from insert_transitions_rows[OF it[unfolded r3 None] this]
        have rows: "open_txs db3 t =
            Some (p\<lparr>wf_workflow_nodes := wf_workflow_nodes p @
                       [\<lparr>nr_id = i, nr_dtype = dtype, nr_state = state, nr_wid = wid,
                         nr_name = TrimSpace name, nr_type = ntype\<rparr>],
                    wf_docstate_transitions := wf_docstate_transitions p @
                       transition_rows dtype state hash\<rparr>)"
          by (simp add: add_row_def)
        from ss(3) r3 None have "ss = transition_stmts dtype state hash" by simp
        with log res p(1) rows show ?thesis
          by (auto intro!: exI[where x="?all"])
      qed
    qed
  qed
  with frame show ?thesis by blast
qed

lemma AddNode_own_transaction:
  "committed (snd (AddNode None dtype state wid name ntype hash db)) = committed db
   \<and> (oplog (snd (AddNode None dtype state wid name ntype hash db)) = oplog db
      \<or> oplog (snd (AddNode None dtype state wid name ntype hash db))
          = oplog db @ [OpBegin (next_tx db), OpRollback (next_tx db)])"
  by (auto simp: AddNode_def AddNode_insert_def Let_def db_Begin_def next_fault_def
        defer_Rollback_def tx_Exec_def tx_Rollback_def
      split: list.splits bool.splits)

lemma AddNode_commits_nothing:
  "committed (snd (AddNode otx dtype state wid name ntype hash db)) = committed db"
proof (cases otx)
  case None
  with AddNode_own_transaction show ?thesis by blast
next
  case (Some t)
  have "calls_only (exec_on t) db (snd (AddNode (Some t) dtype state wid name ntype hash db))"
    by (cases "AddNode_insert (Some t) (Some t) dtype state wid (TrimSpace name) ntype hash db")
       (auto simp: AddNode_def Let_def calls_only_refl dest: AddNode_insert_calls)
  with Some show ?thesis by (simp add: calls_only_def)
qed

section \<open>Specified behaviour\<close>

text \<open>
  Claim C1. Called without a unit of work, the operations are to open a transaction, do
  their work through it and commit it. On an empty, healthy store
  \<open>New(nil, "acme.invoice", 1, 10)\<close> opens transaction 0, panics on the nil handle it
  executes the insert on, and the deferred call rolls transaction 0 back: nothing is
  inserted and nothing is committed. \<open>AddNode\<close> and \<open>ApplyEvent\<close> do the same.
\<close>

theorem own_transaction_never_used:
  "fst (New None (runes ''acme.invoice'') 1 10 db_empty) = Panics
   \<and> oplog (snd (New None (runes ''acme.invoice'') 1 10 db_empty)) = [OpBegin 0, OpRollback 0]
   \<and> committed (snd (New None (runes ''acme.invoice'') 1 10 db_empty)) = committed db_empty
   \<and> fst (AddNode None 1 10 1 (runes ''draft'') ''start'' [(1, 20)] db_empty) = Panics
   \<and> oplog (snd (AddNode None 1 10 1 (runes ''draft'') ''start'' [(1, 20)] db_empty))
       = [OpBegin 0, OpRollback 0]
   \<and> committed (snd (AddNode None 1 10 1 (runes ''draft'') ''start'' [(1, 20)] db_empty))
       = committed db_empty
   \<and> fst (fst (ApplyEvent (workflow_row 1 ''acme.invoice'') None (Some ev_created) [7] db_invoice))
       = Panics
   \<and> committed (snd (ApplyEvent (workflow_row 1 ''acme.invoice'') None (Some ev_created) [7]
        db_invoice)) = committed db_invoice"
  by (simp add: op_defs store_defs example_defs)

text \<open>
  Claim C2. \<open>List\<close> is documented to begin with the smallest id not below \<open>offset\<close>.
  The query skips \<open>offset\<close> rows instead: over the workflows 1, 2, 3 \<open>List(2, 0)\<close>
  returns workflow 3 alone, where the documented result \<open>List_from_id\<close> is 2, 3; over
  the workflows 5, 6, 7 \<open>List(5, 2)\<close> returns nothing.
\<close>

theorem List_offset_skips_rows:
  "fst (List 2 0 db_three) = (Some [workflow_row 3 ''c''], None)
   \<and> List_from_id 2 0 db_three = [workflow_row 2 ''b'', workflow_row 3 ''c'']
   \<and> fst (List 5 2 (db_three\<lparr>committed := no_rows\<lparr>wf_workflows :=
            [workflow_row 5 ''a'', workflow_row 6 ''b'', workflow_row 7 ''c'']\<rparr>\<rparr>))
       = (Some [], None)"
  by (simp add: List_defs List_from_id_def store_defs example_defs)

text \<open>
  Claim C3, as amended. A call of \<open>ApplyEvent\<close> on an event whose status is Applied
  changes nothing, neither the store nor the event, and returns state 0 with an error:
  AlreadyApplied whenever there is a recipient, the error of the recipients guard when
  the list is empty. Whenever an application succeeds, the event was Created and is left
  Applied, so a second application of it (by any workflow, on any unit of work) returns
  AlreadyApplied and leaves the state the first produced as it is. No call changes an
  event in any other way than from Created to Applied: the status moves once.
\<close>

theorem applied_event_never_reapplied:
  "(ev_status e = EventStatusApplied \<longrightarrow>
      snd (ApplyEvent w otx (Some e) recipients db) = db
      \<and> snd (fst (ApplyEvent w otx (Some e) recipients db)) = Some e
      \<and> fst (fst (ApplyEvent w otx (Some e) recipients db))
          = Returns (0, Some (if recipients = [] then ErrRecipientsEmpty else ErrAlreadyApplied)))
   \<and> (ev_status e = EventStatusApplied \<and> recipients \<noteq> [] \<longrightarrow>
      ApplyEvent w otx (Some e) recipients db
        = ((Returns (0, Some ErrAlreadyApplied), Some e), db)
      \<and> kind ErrAlreadyApplied = AlreadyApplied)
   \<and> (fst (fst (ApplyEvent w otx (Some e) recipients db)) = Returns (s, None) \<longrightarrow>
      ev_status e = EventStatusCreated
      \<and> snd (fst (ApplyEvent w otx (Some e) recipients db))
          = Some (e\<lparr>ev_status := EventStatusApplied\<rparr>)
      \<and> ApplyEvent w' otx' (snd (fst (ApplyEvent w otx (Some e) recipients db))) recipients
           (snd (ApplyEvent w otx (Some e) recipients db))
          = ((Returns (0, Some ErrAlreadyApplied), Some (e\<lparr>ev_status := EventStatusApplied\<rparr>)),
             snd (ApplyEvent w otx (Some e) recipients db)))
   \<and> (snd (fst (ApplyEvent w otx (Some e) recipients db)) = Some e
      \<or> ev_status e = EventStatusCreated
        \<and> snd (fst (ApplyEvent w otx (Some e) recipients db))
            = Some (e\<lparr>ev_status := EventStatusApplied\<rparr>))"
proof (intro conjI impI)
  assume "ev_status e = EventStatusApplied"
  then show "snd (ApplyEvent w otx (Some e) recipients db) = db"
    and "snd (fst (ApplyEvent w otx (Some e) recipients db)) = Some e"
    and "fst (fst (ApplyEvent w otx (Some e) recipients db))
          = Returns (0, Some (if recipients = [] then ErrRecipientsEmpty else ErrAlreadyApplied))"
    by (simp_all add: ApplyEvent_def)
next
  assume "ev_status e = EventStatusApplied \<and> recipients \<noteq> []"
  then show "ApplyEvent w otx (Some e) recipients db
        = ((Returns (0, Some ErrAlreadyApplied), Some e), db)"
    by (simp add: ApplyEvent_def)
next
  show "kind ErrAlreadyApplied = AlreadyApplied" by simp
next
  assume ok: "fst (fst (ApplyEvent w otx (Some e) recipients db)) = Returns (s, None)"
  with ApplyEvent_event[of w otx e recipients db s]
  have c: "ev_status e = EventStatusCreated" and r: "recipients \<noteq> []"
    and a: "snd (fst (ApplyEvent w otx (Some e) recipients db))
              = Some (e\<lparr>ev_status := EventStatusApplied\<rparr>)"
    by auto
  from c show "ev_status e = EventStatusCreated" .
  from a show "snd (fst (ApplyEvent w otx (Some e) recipients db))
              = Some (e\<lparr>ev_status := EventStatusApplied\<rparr>)" .
  from r have again: "ApplyEvent w' otx' (Some (e\<lparr>ev_status := EventStatusApplied\<rparr>)) recipients d
          = ((Returns (0, Some ErrAlreadyApplied), Some (e\<lparr>ev_status := EventStatusApplied\<rparr>)), d)"
    for d by (simp add: ApplyEvent_def)
  show "ApplyEvent w' otx' (snd (fst (ApplyEvent w otx (Some e) recipients db))) recipients
           (snd (ApplyEvent w otx (Some e) recipients db))
          = ((Returns (0, Some ErrAlreadyApplied), Some (e\<lparr>ev_status := EventStatusApplied\<rparr>)),
             snd (ApplyEvent w otx (Some e) recipients db))"
    unfolding a by (rule again)
next
  from ApplyEvent_event[of w otx e recipients db s]
  show "snd (fst (ApplyEvent w otx (Some e) recipients db)) = Some e
      \<or> ev_status e = EventStatusCreated
        \<and> snd (fst (ApplyEvent w otx (Some e) recipients db))
            = Some (e\<lparr>ev_status := EventStatusApplied\<rparr>)"
    by blast
qed

text \<open>
  The scenario of section 8 on the caller's transaction 0: the first application returns
  state 20 and leaves the event Applied; the second returns AlreadyApplied and the store
  is as the first left it; without recipients the Applied event gets the other error.
\<close>

theorem applied_event_never_reapplied_witness:
  "ev_status ev_created = EventStatusCreated
   \<and> fst (ApplyEvent (workflow_row 1 ''acme.invoice'') (Some 0) (Some ev_created) [7] db_invoice)
       = (Returns (20, None), Some ev_applied)
   \<and> ev_status ev_applied = EventStatusApplied
   \<and> [7 :: GroupID] \<noteq> []
   \<and> ApplyEvent (workflow_row 1 ''acme.invoice'') (Some 0) (Some ev_applied) [7]
        (snd (ApplyEvent (workflow_row 1 ''acme.invoice'') (Some 0) (Some ev_created) [7] db_invoice))
       = ((Returns (0, Some ErrAlreadyApplied), Some ev_applied),
          snd (ApplyEvent (workflow_row 1 ''acme.invoice'') (Some 0) (Some ev_created) [7] db_invoice))
   \<and> ApplyEvent (workflow_row 1 ''acme.invoice'') (Some 0) (Some ev_applied) [] db_invoice
       = ((Returns (0, Some ErrRecipientsEmpty), Some ev_applied), db_invoice)"
proof -
  let ?w = "workflow_row 1 ''acme.invoice''"
  let ?first = "ApplyEvent ?w (Some 0) (Some ev_created) [7] db_invoice"
  have c: "ev_status ev_created = EventStatusCreated" by (simp add: ev_created_def)
  have s: "ev_status ev_applied = EventStatusApplied" by (simp add: ev_applied_def)
  have r: "[7 :: GroupID] \<noteq> []" by simp
  have e: "ev_created\<lparr>ev_status := EventStatusApplied\<rparr> = ev_applied" by (simp add: ev_applied_def)
  have ok: "fst (fst ?first) = Returns (20, None)" using first_application by simp
  from applied_event_never_reapplied
         [of ev_created ?w "Some 0" "[7]" db_invoice 20 ?w "Some 0", unfolded e] ok
  have a: "snd (fst ?first) = Some ev_applied"
    and b': "ApplyEvent ?w (Some 0) (snd (fst ?first)) [7] (snd ?first)
              = ((Returns (0, Some ErrAlreadyApplied), Some ev_applied), snd ?first)"
    by blast+
  from b' have b: "ApplyEvent ?w (Some 0) (Some ev_applied) [7] (snd ?first)
              = ((Returns (0, Some ErrAlreadyApplied), Some ev_applied), snd ?first)"
    unfolding a .
  from applied_event_never_reapplied [of ev_applied ?w "Some 0" "[]" db_invoice 0 ?w "Some 0"] s
  have d: "ApplyEvent ?w (Some 0) (Some ev_applied) [] db_invoice
             = ((Returns (0, Some ErrRecipientsEmpty), Some ev_applied), db_invoice)"
    by (simp add: prod_eq_iff)
  from c ok a b s r d show ?thesis by (simp add: prod_eq_iff)
qed

text \<open>
  Claim C3 as stated fails for an empty list of recipients: that guard comes first, and
  the call returns its error for an Applied event.
\<close>

theorem applied_event_without_recipients:
  "ev_status ev_applied = EventStatusApplied
   \<and> ApplyEvent (workflow_row 1 ''acme.invoice'') (Some 0) (Some ev_applied) [] db_invoice
       = ((Returns (0, Some ErrRecipientsEmpty), Some ev_applied), db_invoice)
   \<and> fst (fst (ApplyEvent (workflow_row 1 ''acme.invoice'') (Some 0) (Some ev_applied) []
        db_invoice)) \<noteq> Returns (0, Some ErrAlreadyApplied)
   \<and> kind ErrRecipientsEmpty \<noteq> AlreadyApplied"
  by (simp add: ApplyEvent_def ev_applied_def)

text \<open>
  Claim C4, as amended. For a non-nil event that is not yet Applied, with a non-empty
  list of recipients and a document type other than the workflow's, \<open>ApplyEvent\<close>
  returns TypeMismatch with state 0 and changes nothing.
\<close>

theorem type_mismatch_rejected:
  "recipients \<noteq> [] \<Longrightarrow> ev_status e \<noteq> EventStatusApplied \<Longrightarrow> wf_dtype w \<noteq> ev_dtype e \<Longrightarrow>
     ApplyEvent w otx (Some e) recipients db
       = ((Returns (0, Some (ErrTypeMismatch (wf_dtype w) (ev_dtype e))), Some e), db)
     \<and> kind (ErrTypeMismatch (wf_dtype w) (ev_dtype e)) = TypeMismatch"
  by (simp add: ApplyEvent_def)

theorem type_mismatch_rejected_witness:
  "[7 :: GroupID] \<noteq> []
   \<and> ev_status (ev_created\<lparr>ev_dtype := 2\<rparr>) \<noteq> EventStatusApplied
   \<and> wf_dtype (workflow_row 1 ''acme.invoice'') \<noteq> ev_dtype (ev_created\<lparr>ev_dtype := 2\<rparr>)
   \<and> ApplyEvent (workflow_row 1 ''acme.invoice'') None (Some (ev_created\<lparr>ev_dtype := 2\<rparr>)) [7] db_invoice
       = ((Returns (0, Some (ErrTypeMismatch 1 2)), Some (ev_created\<lparr>ev_dtype := 2\<rparr>)), db_invoice)"
proof -
  have a: "[7 :: GroupID] \<noteq> []" by simp
  have b: "ev_status (ev_created\<lparr>ev_dtype := 2\<rparr>) \<noteq> EventStatusApplied"
    by (simp add: ev_created_def)
  have c: "wf_dtype (workflow_row 1 ''acme.invoice'') \<noteq> ev_dtype (ev_created\<lparr>ev_dtype := 2\<rparr>)"
    by (simp add: workflow_row_def)
  from type_mismatch_rejected [OF a b c, of None db_invoice] a b c show ?thesis
    by (simp add: workflow_row_def)
qed

text \<open>
  Claim C4 as stated fails for an event that is already Applied: the status guard comes
  before the comparison of document types, and the call returns AlreadyApplied.
\<close>

theorem type_mismatch_on_applied_event:
  "[7 :: GroupID] \<noteq> []
   \<and> wf_dtype (workflow_row 1 ''acme.invoice'') \<noteq> ev_dtype ev_applied_other_type
   \<and> ApplyEvent (workflow_row 1 ''acme.invoice'') (Some 0) (Some ev_applied_other_type) [7] db_invoice
       = ((Returns (0, Some ErrAlreadyApplied), Some ev_applied_other_type), db_invoice)
   \<and> fst (fst (ApplyEvent (workflow_row 1 ''acme.invoice'') (Some 0) (Some ev_applied_other_type)
        [7] db_invoice))
       \<noteq> Returns (0, Some (ErrTypeMismatch (wf_dtype (workflow_row 1 ''acme.invoice''))
                                (ev_dtype ev_applied_other_type)))
   \<and> kind ErrAlreadyApplied \<noteq> TypeMismatch"
  by (simp add: ApplyEvent_def ev_applied_other_type_def ev_applied_def workflow_row_def)

text \<open>
  Claim C5. When the caller supplies the unit of work (\<open>otx = Some t\<close>), \<open>New\<close>,
  \<open>AddNode\<close> and \<open>ApplyEvent\<close> reach the store only through statements executed on
  \<open>t\<close> (\<open>ApplyEvent\<close> also through the node lookup, a read that takes no unit of work):
  on success and on failure alike they never begin, commit or roll back a transaction,
  the committed rows are unchanged and the same transactions are open afterwards.
\<close>

theorem caller_transaction_never_finished:
  "calls_only (exec_on t) db (snd (New (Some t) name dtype state db))
   \<and> calls_only (exec_on t) db (snd (AddNode (Some t) dtype state wid name ntype hash db))
   \<and> calls_only (query_or_exec_on t) db (snd (ApplyEvent w (Some t) event recipients db))"
proof (intro conjI)
  show "calls_only (exec_on t) db (snd (New (Some t) name dtype state db))"
    by (cases "New_insert (Some t) (Some t) (TrimSpace name) dtype state db")
       (auto simp: New_def Let_def calls_only_refl dest: New_insert_calls)
  show "calls_only (exec_on t) db (snd (AddNode (Some t) dtype state wid name ntype hash db))"
    by (cases "AddNode_insert (Some t) (Some t) dtype state wid (TrimSpace name) ntype hash db")
       (auto simp: AddNode_def Let_def calls_only_refl dest: AddNode_insert_calls)
  show "calls_only (query_or_exec_on t) db (snd (ApplyEvent w (Some t) event recipients db))"
  proof (cases event)
    case None
    then show ?thesis by (simp add: ApplyEvent_def calls_only_refl)
  next
    case (Some e)
    obtain g db1 where g: "GetByState (wf_dtype w) (ev_state e) db = (g, db1)"
      by (cases "GetByState (wf_dtype w) (ev_state e) db") auto
    note gc = GetByState_calls[OF g, of t]
    show ?thesis
    proof (cases g)
      case (Inl err)
      with Some g gc show ?thesis by (auto simp: ApplyEvent_def calls_only_refl)
    next
      case (Inr n)
      obtain r db2 where a: "ApplyEvent_apply (Some t) (Some t) n e recipients db1 = (r, db2)"
        by (cases "ApplyEvent_apply (Some t) (Some t) n e recipients db1") auto
      from ApplyEvent_apply_calls[OF a] gc have "calls_only (query_or_exec_on t) db db2"
        by (blast intro: calls_only_trans calls_only_weaken)
      with Some g Inr a show ?thesis by (auto simp: ApplyEvent_def calls_only_refl)
    qed
  qed
qed

text \<open>
  Claim C6. \<open>AddNode\<close> is to insert the Node row and one Transition row per entry of the
  map as one atomic unit. Called without a unit of work on an empty, healthy store,
  \<open>AddNode(nil, 1, 10, 1, "draft", "start", {1: 20, 2: 30})\<close> opens transaction 0, panics on
  the nil handle before the first insert, and the deferred call rolls transaction 0 back:
  no Node row and no Transition row is inserted. The same call on a caller's transaction
  executes the three inserts in order.
\<close>

theorem AddNode_without_transaction_inserts_nothing:
  "fst (AddNode None 1 10 1 (runes ''draft'') ''start'' [(1, 20), (2, 30)] db_empty) = Panics
   \<and> oplog (snd (AddNode None 1 10 1 (runes ''draft'') ''start'' [(1, 20), (2, 30)] db_empty))
       = [OpBegin 0, OpRollback 0]
   \<and> committed (snd (AddNode None 1 10 1 (runes ''draft'') ''start'' [(1, 20), (2, 30)] db_empty))
       = no_rows
   \<and> pending_of 0 (snd (AddNode None 1 10 1 (runes ''draft'') ''start'' [(1, 20), (2, 30)] db_empty))
       = no_rows
   \<and> fst (AddNode (Some 0) 1 10 1 (runes ''draft'') ''start'' [(1, 20), (2, 30)]
        (snd (db_Begin db_empty))) = Returns (1, None)
   \<and> oplog (snd (AddNode (Some 0) 1 10 1 (runes ''draft'') ''start'' [(1, 20), (2, 30)]
        (snd (db_Begin db_empty))))
       = [OpBegin 0, OpExec 0 (InsertNode 1 10 1 (runes ''draft'') ''start''),
          OpExec 0 (InsertTransition 1 10 1 20), OpExec 0 (InsertTransition 1 10 2 30)]
   \<and> wf_workflow_nodes (pending_of 0 (snd (AddNode (Some 0) 1 10 1 (runes ''draft'') ''start''
        [(1, 20), (2, 30)] (snd (db_Begin db_empty)))))
       = [\<lparr>nr_id = 1, nr_dtype = 1, nr_state = 10, nr_wid = 1, nr_name = runes ''draft'',
           nr_type = ''start''\<rparr>]
   \<and> wf_docstate_transitions (pending_of 0 (snd (AddNode (Some 0) 1 10 1 (runes ''draft'')
        ''start'' [(1, 20), (2, 30)] (snd (db_Begin db_empty)))))
       = [(1, 10, 1, 20), (1, 10, 2, 30)]"
  by (simp add: AddNode_def AddNode_insert_def Let_def store_defs example_defs)

text \<open>
  Claim C7. \<open>New\<close> with a name that trims to the empty string, and \<open>AddNode\<close> with such
  a name or an empty transitions map, return 0 and an InvalidArgument error, and the
  store (its rows, its transactions, its log) is untouched.
\<close>

theorem blank_arguments_rejected:
  "(TrimSpace name = [] \<longrightarrow>
      New otx name dtype state db = (Returns (0, Some ErrNameEmpty), db)
      \<and> AddNode otx dtype state wid name ntype hash db = (Returns (0, Some ErrNameEmpty), db))
   \<and> (TrimSpace name \<noteq> [] \<and> hash = [] \<longrightarrow>
      AddNode otx dtype state wid name ntype hash db = (Returns (0, Some ErrTransitionsEmpty), db))
   \<and> kind ErrNameEmpty = InvalidArgument \<and> kind ErrTransitionsEmpty = InvalidArgument"
  by (simp add: New_def AddNode_def)

theorem blank_arguments_rejected_witness:
  "TrimSpace (runes ''  '') = []
   \<and> New None (runes ''  '') 1 10 db_empty = (Returns (0, Some ErrNameEmpty), db_empty)
   \<and> AddNode None 1 10 1 (runes ''  '') ''start'' [(1, 20)] db_empty
       = (Returns (0, Some ErrNameEmpty), db_empty)
   \<and> TrimSpace (runes ''draft'') \<noteq> []
   \<and> AddNode None 1 10 1 (runes ''draft'') ''start'' [] db_empty
       = (Returns (0, Some ErrTransitionsEmpty), db_empty)"
proof -
  have blank: "TrimSpace (runes ''  '') = []"
    by (simp add: runes_def TrimSpace_def isSpace_def)
  have named: "TrimSpace (runes ''draft'') \<noteq> []"
    by (simp add: runes_def TrimSpace_def isSpace_def)
  show ?thesis
    using blank named
      blank_arguments_rejected [of "runes ''  ''" None 1 10 db_empty 1 "''start''" "[(1, 20)]"]
      blank_arguments_rejected [of "runes ''draft''" None 1 10 db_empty 1 "''start''" "[]"]
    by simp
qed



text \<open>
  Claim C9. Whenever \<open>New\<close>, \<open>AddNode\<close> or \<open>ApplyEvent\<close> returns an error, the
  identifier or state returned with it is 0.
\<close>

theorem errors_return_zero:
  "(returned_error (fst (New otx name dtype state db)) \<noteq> None \<longrightarrow>
      returned_value (fst (New otx name dtype state db)) = Some 0)
   \<and> (returned_error (fst (AddNode otx dtype state wid name' ntype hash db)) \<noteq> None \<longrightarrow>
      returned_value (fst (AddNode otx dtype state wid name' ntype hash db)) = Some 0)
   \<and> (returned_error (fst (fst (ApplyEvent w otx event recipients db))) \<noteq> None \<longrightarrow>
      returned_value (fst (fst (ApplyEvent w otx event recipients db))) = Some 0)"
  by (simp add: New_zero AddNode_zero ApplyEvent_zero)

theorem errors_return_zero_witness:
  "returned_error (fst (New (Some 0) (runes ''acme.invoice'') 1 10 db_invoice)) = Some ErrDuplicate
   \<and> returned_value (fst (New (Some 0) (runes ''acme.invoice'') 1 10 db_invoice)) = Some 0
   \<and> returned_error (fst (AddNode (Some 0) 1 10 1 (runes ''draft'') ''start'' [(1, 20)] db_invoice))
       = Some ErrDuplicate
   \<and> returned_value (fst (AddNode (Some 0) 1 10 1 (runes ''draft'') ''start'' [(1, 20)] db_invoice))
       = Some 0
   \<and> returned_error (fst (fst (ApplyEvent (workflow_row 1 ''acme.invoice'') (Some 0)
         (Some (ev_created\<lparr>ev_action := 99\<rparr>)) [7] db_invoice))) = Some ErrIllegalAction
   \<and> returned_value (fst (fst (ApplyEvent (workflow_row 1 ''acme.invoice'') (Some 0)
         (Some (ev_created\<lparr>ev_action := 99\<rparr>)) [7] db_invoice))) = Some 0"
proof -
  have a: "returned_error (fst (New (Some 0) (runes ''acme.invoice'') 1 10 db_invoice))
             = Some ErrDuplicate"
    by (simp add: op_defs store_defs example_defs)
  have b: "returned_error (fst (AddNode (Some 0) 1 10 1 (runes ''draft'') ''start'' [(1, 20)] db_invoice))
             = Some ErrDuplicate"
    by (simp add: op_defs store_defs example_defs)
  have c: "returned_error (fst (fst (ApplyEvent (workflow_row 1 ''acme.invoice'') (Some 0)
             (Some (ev_created\<lparr>ev_action := 99\<rparr>)) [7] db_invoice))) = Some ErrIllegalAction"
    by (simp add: op_defs store_defs example_defs)
  from a b c
    errors_return_zero [of "Some 0" "runes ''acme.invoice''" 1 10 db_invoice 1
      "runes ''draft''" "''start''" "[(1, 20)]" "workflow_row 1 ''acme.invoice''"
      "Some (ev_created\<lparr>ev_action := 99\<rparr>)" "[7]"]
  show ?thesis by simp
qed

text \<open>
  Claim C10. When \<open>List\<close> succeeds and the store has no row beyond the offset, it
  returns an allocated, empty slice (\<open>Some []\<close>, not the nil slice \<open>None\<close>) and no
  error.
\<close>

theorem empty_window_empty_list:
  "snd (fst (List offset limit db)) = None \<Longrightarrow>
   length (wf_workflows (committed db)) \<le> nat (sint offset) \<Longrightarrow>
     fst (List offset limit db) = (Some [], None)"
proof -
  assume ok: "snd (fst (List offset limit db)) = None"
    and few: "length (wf_workflows (committed db)) \<le> nat (sint offset)"
  from List_success[OF ok] few have "fst (fst (List offset limit db)) = Some []" by simp
  with ok show ?thesis by (simp add: prod_eq_iff)
qed

theorem empty_window_empty_list_witness:
  "snd (fst (List 0 0 db_empty)) = None
   \<and> length (wf_workflows (committed db_empty)) \<le> nat (sint (0 :: int64))
   \<and> fst (List 0 0 db_empty) = (Some [], None)
   \<and> snd (fst (List 3 2 db_three)) = None
   \<and> length (wf_workflows (committed db_three)) \<le> nat (sint (3 :: int64))
   \<and> fst (List 3 2 db_three) = (Some [], None)"
proof -
  have a: "snd (fst (List 0 0 db_empty)) = None"
    by (simp add: List_defs store_defs example_defs)
  have b: "length (wf_workflows (committed db_empty)) \<le> nat (sint (0 :: int64))"
    by (simp add: example_defs no_rows_def)
  have c: "snd (fst (List 3 2 db_three)) = None"
    by (simp add: List_defs store_defs example_defs)
  have d: "length (wf_workflows (committed db_three)) \<le> nat (sint (3 :: int64))"
    by (simp add: example_defs no_rows_def)
  from a b c d empty_window_empty_list [OF a b] empty_window_empty_list [OF c d]
  show ?thesis by blast
qed

end
